theory Spec2Isabelle
  imports Complex_Main
begin

section \<open>Cryogenic hydrogen tank sizing: the model\<close>

text \<open>
  The development embeds \<^verbatim>\<open>H2 system design/H2_heat_influx.py\<close>. Python floats are
  idealised as real numbers, Python integers are \<^typ>\<open>int\<close>. The fluid property library
  (CoolProp's \<^verbatim>\<open>PropsSI\<close>) and the iterations of the numerical solvers of SciPy are
  external to the repository: they are parameters of the functions that call them. The
  provider is taken to answer every query with a number. Output written by \<^verbatim>\<open>print\<close>
  is left out.
\<close>

subsection \<open>Errors and external collaborators\<close>

datatype error = ZeroDivisionError | LinAlgError | ValueError | UnboundLocalError

text \<open>
  \<^verbatim>\<open>CP.PropsSI(output, name1, value1, name2, value2, fluid)\<close>: the call is kept as the
  source writes it, with the two state values as reals.
\<close>

type_synonym props = "string \<Rightarrow> string \<Rightarrow> real \<Rightarrow> string \<Rightarrow> real \<Rightarrow> string \<Rightarrow> real"

subsection \<open>The linear solve\<close>

text \<open>
  \<^verbatim>\<open>np.linalg.solve(A, B)\<close> for the 4 by 4 system of the integrator, in exact arithmetic:
  the unique solution by Cramer's rule, \<^verbatim>\<open>LinAlgError\<close> for a singular matrix. Matrices are
  lists of rows, as the literals handed to \<^verbatim>\<open>np.array\<close>.
\<close>

definition det3 :: "real \<Rightarrow> real \<Rightarrow> real \<Rightarrow> real \<Rightarrow> real \<Rightarrow> real \<Rightarrow> real \<Rightarrow> real \<Rightarrow> real \<Rightarrow> real" where
  "det3 a b c d e f g h i = a * (e * i - f * h) - b * (d * i - f * g) + c * (d * h - e * g)"

definition det4 :: "real list list \<Rightarrow> real" where
  "det4 M =
     M ! 0 ! 0 * det3 (M ! 1 ! 1) (M ! 1 ! 2) (M ! 1 ! 3) (M ! 2 ! 1) (M ! 2 ! 2) (M ! 2 ! 3)
                      (M ! 3 ! 1) (M ! 3 ! 2) (M ! 3 ! 3)
   - M ! 0 ! 1 * det3 (M ! 1 ! 0) (M ! 1 ! 2) (M ! 1 ! 3) (M ! 2 ! 0) (M ! 2 ! 2) (M ! 2 ! 3)
                      (M ! 3 ! 0) (M ! 3 ! 2) (M ! 3 ! 3)
   + M ! 0 ! 2 * det3 (M ! 1 ! 0) (M ! 1 ! 1) (M ! 1 ! 3) (M ! 2 ! 0) (M ! 2 ! 1) (M ! 2 ! 3)
                      (M ! 3 ! 0) (M ! 3 ! 1) (M ! 3 ! 3)
   - M ! 0 ! 3 * det3 (M ! 1 ! 0) (M ! 1 ! 1) (M ! 1 ! 2) (M ! 2 ! 0) (M ! 2 ! 1) (M ! 2 ! 2)
                      (M ! 3 ! 0) (M ! 3 ! 1) (M ! 3 ! 2)"

definition replace_col :: "real list list \<Rightarrow> nat \<Rightarrow> real list list \<Rightarrow> real list list" where
  "replace_col M j B = map (\<lambda>i. (M ! i)[j := B ! i ! 0]) [0, 1, 2, 3]"

definition linalg_solve :: "real list list \<Rightarrow> real list list \<Rightarrow> error + real list list" where
  "linalg_solve M B =
     (if det4 M = 0 then Inl LinAlgError
      else Inr (map (\<lambda>j. [det4 (replace_col M j B) / det4 M]) [0, 1, 2, 3]))"

subsection \<open>Materials and the tank object\<close>

text \<open>
  A material row of the database is a list of seven numbers read by position; the record
  names the positions 0 to 6 in order.
\<close>

record mat_props =
  mp_density :: real
  mp_yield_strength :: real
  mp_thermal_conductivity :: real
  mp_emissivity :: real
  mp_co2 :: real
  mp_ee :: real
  mp_fibre_ratio :: real

text \<open>
  The attributes of \<^verbatim>\<open>Tank\<close>, written \<^verbatim>\<open>self.name\<close> in the source. The attributes
  that only copy one entry of a material row are read through the row.
\<close>

record Tank =
  self_material :: string
  self_material2 :: string
  self_mat_property :: mat_props
  self_mat2_property :: mat_props
  self_dormancy :: int
  self_fill_ratio :: real
  self_mass_h2 :: real
  self_stratification_factor :: real
  self_k_str :: real
  self_MAWP :: real
  self_Pvent :: real
  self_P0 :: real
  self_T0 :: real
  self_rhol0 :: real
  self_rhog0 :: real
  self_V_in :: real
  self_mg0 :: real
  self_ml0 :: real
  self_hg0 :: real
  self_hl0 :: real
  self_x0 :: real
  self_R_in :: real
  self_Q_leak_min :: real
  self_Q_leak_max :: real

text \<open>\<^verbatim>\<open>Tank.__init__\<close>. The quality \<^verbatim>\<open>x0\<close> divides two Python floats.\<close>

definition Tank_init ::
  "props \<Rightarrow> real \<Rightarrow> string \<Rightarrow> string \<Rightarrow> mat_props \<Rightarrow> real \<Rightarrow> mat_props \<Rightarrow> real \<Rightarrow> real \<Rightarrow> real
     \<Rightarrow> error + Tank" where
  "Tank_init PropsSI MAWP material material2 mat_property mass_h2 mat2_property fill V_in p_vent =
     (let P0 = 101000;
          T0 = PropsSI ''T'' ''P'' P0 ''Q'' 0.1 ''ParaHydrogen'';
          rhol0 = PropsSI ''D'' ''T'' T0 ''Q'' 0 ''ParaHydrogen'';
          rhog0 = PropsSI ''D'' ''T'' T0 ''Q'' 1 ''ParaHydrogen'';
          mg0 = PropsSI ''D'' ''T'' T0 ''Q'' 1 ''ParaHydrogen'' * V_in * (1 - fill);
          ml0 = PropsSI ''D'' ''T'' T0 ''Q'' 0 ''ParaHydrogen'' * V_in * fill;
          hg0 = PropsSI ''H'' ''T'' T0 ''Q'' 1 ''ParaHydrogen'';
          hl0 = PropsSI ''H'' ''T'' T0 ''Q'' 0 ''ParaHydrogen''
      in if mg0 + ml0 = 0 then Inl ZeroDivisionError
         else Inr \<lparr> self_material = material, self_material2 = material2,
                    self_mat_property = mat_property, self_mat2_property = mat2_property,
                    self_dormancy = 24, self_fill_ratio = fill, self_mass_h2 = mass_h2,
                    self_stratification_factor = 2, self_k_str = 1.9,
                    self_MAWP = MAWP, self_Pvent = p_vent,
                    self_P0 = P0, self_T0 = T0, self_rhol0 = rhol0, self_rhog0 = rhog0,
                    self_V_in = V_in, self_mg0 = mg0, self_ml0 = ml0, self_hg0 = hg0,
                    self_hl0 = hl0, self_x0 = mg0 / (mg0 + ml0),
                    self_R_in = 0.8, self_Q_leak_min = 10, self_Q_leak_max = 1000 \<rparr>)"

subsection \<open>The transient integrator\<close>

text \<open>
  The local lists of \<^verbatim>\<open>maximum_Qin\<close>. \<^verbatim>\<open>xs[-1]\<close> is \<^term>\<open>last xs\<close> and
  \<^verbatim>\<open>xs.append(v)\<close> is \<^term>\<open>xs @ [v]\<close>; every list starts with one element.
\<close>

record sim =
  v_P :: "real list"
  v_T :: "real list"
  v_mg :: "real list"
  v_ml :: "real list"
  v_rhog :: "real list"
  v_rhol :: "real list"
  v_hg :: "real list"
  v_hl :: "real list"
  v_x :: "real list"
  v_Ps :: "real list"
  v_time :: "int list"

definition sim_init :: "Tank \<Rightarrow> sim" where
  "sim_init self =
     \<lparr> v_P = [self_P0 self], v_T = [self_T0 self], v_mg = [self_mg0 self], v_ml = [self_ml0 self],
       v_rhog = [self_rhog0 self], v_rhol = [self_rhol0 self], v_hg = [self_hg0 self],
       v_hl = [self_hl0 self], v_x = [self_x0 self], v_Ps = [self_P0 self], v_time = [0] \<rparr>"

text \<open>
  The four rates of one pass through the loop: the property derivatives, the coefficient
  matrix, the solve and the stratification factor on the pressure rate. The densities are
  Python floats, so a zero density raises at the first division by it.
\<close>

definition rates :: "props \<Rightarrow> Tank \<Rightarrow> real \<Rightarrow> sim \<Rightarrow> error + real \<times> real \<times> real \<times> real" where
  "rates PropsSI self Qleak s =
     (let delrhog_delP = PropsSI ''d(D)/d(P)|T'' ''T'' (last (v_T s)) ''Q'' 1 ''ParaHydrogen'';
          delrhol_delP = PropsSI ''d(D)/d(P)|T'' ''T'' (last (v_T s)) ''Q'' 0 ''ParaHydrogen'';
          delrhog_delT = PropsSI ''d(D)/d(T)|P'' ''P'' (last (v_P s)) ''Q'' 1 ''ParaHydrogen'';
          delrhol_delT = PropsSI ''d(D)/d(T)|P'' ''P'' (last (v_P s)) ''Q'' 0 ''ParaHydrogen'';
          delhg_delP = PropsSI ''d(H)/d(P)|T'' ''T'' (last (v_T s)) ''Q'' 1 ''ParaHydrogen'';
          delhl_delP = PropsSI ''d(H)/d(P)|T'' ''T'' (last (v_T s)) ''Q'' 0 ''ParaHydrogen'';
          delhg_delT = PropsSI ''d(H)/d(T)|P'' ''P'' (last (v_P s)) ''Q'' 1 ''ParaHydrogen'';
          delhl_delT = PropsSI ''d(H)/d(T)|P'' ''P'' (last (v_P s)) ''Q'' 0 ''ParaHydrogen'';
          T_increment = 6.5 / 1000000;
          T_new = last (v_T s) + T_increment;
          P_new = PropsSI ''P'' ''T'' T_new ''Q'' 0.1 ''ParaHydrogen'';
          dPs_dT = (P_new - last (v_P s)) / (T_new - last (v_T s))
      in if last (v_rhog s) = 0 \<or> last (v_rhol s) = 0 then Inl ZeroDivisionError
         else
           let A21 = - (((last (v_mg s) / (last (v_rhog s))\<^sup>2) * delrhog_delP)
                      + ((last (v_ml s) / (last (v_rhol s))\<^sup>2) * delrhol_delP));
               A22 = - (((last (v_mg s) / (last (v_rhog s))\<^sup>2) * delrhog_delT)
                      + ((last (v_ml s) / (last (v_rhol s))\<^sup>2) * delrhol_delT));
               A42 = (last (v_ml s) * delhl_delT) + (last (v_mg s) * delhg_delT)
                     + (((last (v_ml s) * delhl_delP) + (last (v_mg s) * delhg_delP)
                         - self_V_in self) * dPs_dT);
               A = [[1, - dPs_dT, 0, 0],
                    [A21, A22, (1 / last (v_rhog s)) - (1 / last (v_rhol s)), 0],
                    [0, 0, 1, 1],
                    [0, A42, - (last (v_hl s) - last (v_hg s)), 0]];
               B = [[0], [0], [0], [Qleak]]
           in case linalg_solve A B of
                Inl e \<Rightarrow> Inl e
              | Inr differential_matrix \<Rightarrow>
                  Inr (differential_matrix ! 0 ! 0 * self_stratification_factor self,
                       differential_matrix ! 1 ! 0,
                       differential_matrix ! 2 ! 0,
                       differential_matrix ! 3 ! 0))"

text \<open>
  The update of the lists at the end of the pass. The pressure and the temperature get a
  new sample in both branches; the branch that clamps the vapour mass appends nothing else.
\<close>

definition update_state :: "props \<Rightarrow> real \<times> real \<times> real \<times> real \<Rightarrow> sim \<Rightarrow> sim" where
  "update_state PropsSI r s =
     (case r of (dP_dt, dT_dt, dmg_dt, dml_dt) \<Rightarrow>
      let dt = (250 :: int);
          P = v_P s @ [last (v_P s) + (real_of_int dt * dP_dt)];
          T = v_T s @ [PropsSI ''T'' ''P'' (last P) ''Q'' 0.1 ''ParaHydrogen'']
      in if last (v_mg s) + (real_of_int dt * dmg_dt) \<le> 0
         then s \<lparr> v_P := P, v_T := T, v_mg := v_mg s @ [0] \<rparr>
         else
           let mg = v_mg s @ [last (v_mg s) + (real_of_int dt * dmg_dt)];
               ml = v_ml s @ [last (v_ml s) + (real_of_int dt * dml_dt)]
           in \<lparr> v_P = P, v_T = T, v_mg = mg, v_ml = ml,
                v_rhog = v_rhog s @ [PropsSI ''D'' ''P'' (last P) ''Q'' 1 ''ParaHydrogen''],
                v_rhol = v_rhol s @ [PropsSI ''D'' ''P'' (last P) ''Q'' 0 ''ParaHydrogen''],
                v_hg = v_hg s @ [PropsSI ''H'' ''P'' (last P) ''Q'' 1 ''ParaHydrogen''],
                v_hl = v_hl s @ [PropsSI ''H'' ''P'' (last P) ''Q'' 0 ''ParaHydrogen''],
                v_x = v_x s @ [last mg / (last mg + last ml)],
                v_Ps = v_Ps s @ [PropsSI ''P'' ''T'' (last T) ''Q'' 0.5 ''ParaHydrogen''],
                v_time = v_time s @ [last (v_time s) + dt] \<rparr>)"

definition loop_body :: "props \<Rightarrow> Tank \<Rightarrow> real \<Rightarrow> sim \<Rightarrow> error + sim" where
  "loop_body PropsSI self Qleak s =
     (case rates PropsSI self Qleak s of
        Inl e \<Rightarrow> Inl e
      | Inr r \<Rightarrow> Inr (update_state PropsSI r s))"

text \<open>
  A \<^verbatim>\<open>while\<close> statement whose body can raise. The loop has no iteration cap: a run that
  never leaves it is the value \<^term>\<open>None\<close>.
\<close>

partial_function (option) while_loop ::
  "('s \<Rightarrow> bool) \<Rightarrow> ('s \<Rightarrow> error + 's) \<Rightarrow> 's \<Rightarrow> (error + 's) option" where
  "while_loop b c s =
     (if b s then (case c s of Inl e \<Rightarrow> Some (Inl e) | Inr s' \<Rightarrow> while_loop b c s')
      else Some (Inr s))"

definition maximum_Qin :: "props \<Rightarrow> Tank \<Rightarrow> real \<Rightarrow> (error + real) option" where
  "maximum_Qin PropsSI self Qleak =
     (case while_loop (\<lambda>s. last (v_P s) < self_Pvent self) (loop_body PropsSI self Qleak)
             (sim_init self) of
        None \<Rightarrow> None
      | Some (Inl e) \<Rightarrow> Some (Inl e)
      | Some (Inr s) \<Rightarrow>
          Some (Inr (real_of_int (last (v_time s)) / 3600 - real_of_int (self_dormancy self))))"

subsection \<open>Inner tank\<close>

definition volume_equation :: "Tank \<Rightarrow> real \<Rightarrow> real" where
  "volume_equation self l =
     (let L_cyl = l - 2 * self_R_in self
      in if L_cyl < 0 then 1000000
         else let V = pi * (self_R_in self)\<^sup>2 * L_cyl + (4 / 3) * pi * (self_R_in self) ^ 3
              in V - self_V_in self)"

text \<open>
  The netting-theory thickness of one winding angle: the body of the loop over the
  candidate angles. \<^verbatim>\<open>np.cos\<close> and \<^verbatim>\<open>np.tan\<close> read the angle in radians.
\<close>

definition netting_thickness :: "real \<Rightarrow> real \<Rightarrow> mat_props \<Rightarrow> real \<Rightarrow> real" where
  "netting_thickness N_theta_p N_phi_p mat_property ang =
     (let t_heli = N_phi_p / (mp_yield_strength mat_property * (cos ang)\<^sup>2);
          t_hoop = (N_theta_p - N_phi_p * (tan ang)\<^sup>2) / mp_yield_strength mat_property
      in (t_heli + t_hoop) / mp_fibre_ratio mat_property)"

text \<open>
  \<^verbatim>\<open>for ang in angle: t = ...; if t < t_min: t_min = t; alpha = ang\<close>, with the pair
  \<^verbatim>\<open>(t_min, alpha)\<close> as the state of the loop.
\<close>

fun angle_search :: "(real \<Rightarrow> real) \<Rightarrow> real list \<Rightarrow> real \<times> real \<Rightarrow> real \<times> real" where
  "angle_search t [] (t_min, alpha) = (t_min, alpha)"
| "angle_search t (ang # angle) (t_min, alpha) =
     (if t ang < t_min then angle_search t angle (t ang, ang)
      else angle_search t angle (t_min, alpha))"

definition is_composite :: "string \<Rightarrow> bool" where
  "is_composite material \<longleftrightarrow>
     material = ''G10'' \<or> material = ''Carbon Fibre Woven Prepreg (QI)''"

text \<open>
  \<^verbatim>\<open>Tank.inner_tank_thickness\<close>. In the metallic branch two Python floats are divided,
  which raises for a zero yield strength.
\<close>

definition inner_tank_thickness :: "Tank \<Rightarrow> error + real \<times> real" where
  "inner_tank_thickness self =
     (let P_test = (self_MAWP self + 0.2 * 100000) * 1.3;
          alpha = 0
      in if is_composite (self_material self) then
           let N_theta_p = P_test * self_R_in self;
               N_phi_p = P_test * self_R_in self / 2;
               angle = [0, 90, 0.1];
               t_min = 1000
           in Inr (angle_search (netting_thickness N_theta_p N_phi_p (self_mat_property self))
                     angle (t_min, alpha))
         else if mp_yield_strength (self_mat_property self) = 0 then Inl ZeroDivisionError
         else Inr (P_test * self_R_in self / mp_yield_strength (self_mat_property self), alpha))"

subsection \<open>Vacuum gap and outer tank\<close>

text \<open>
  The nested functions of \<^verbatim>\<open>Tank.heat_influx\<close>, with the variables they close over as
  arguments. The conduction path uses \<^verbatim>\<open>t2 = t1\<close> for the outer shell.
\<close>

definition Q_cond :: "Tank \<Rightarrow> real \<Rightarrow> real \<Rightarrow> real \<Rightarrow> real \<Rightarrow> real \<Rightarrow> real \<Rightarrow> real" where
  "Q_cond self L_in_max t1 k_vac t_mli k_mli dv =
     (let T_tank = self_T0 self;
          T_amb = 300;
          r_in = self_R_in self;
          t2 = t1;
          k_1 = mp_thermal_conductivity (self_mat_property self);
          k_2 = mp_thermal_conductivity (self_mat2_property self);
          R_cond = ln ((r_in + t1) / r_in) / (2 * pi * L_in_max * k_1)
                 + ln ((r_in + t1 + t_mli) / (r_in + t1)) / (2 * pi * L_in_max * k_mli)
                 + ln ((r_in + t1 + t_mli + dv) / (r_in + t1 + t_mli)) / (2 * pi * L_in_max * k_vac)
                 + ln ((r_in + t1 + dv + t_mli + t2) / (r_in + t1 + dv + t_mli))
                     / (2 * pi * L_in_max * k_2)
      in (T_amb - T_tank) / R_cond)"

definition Q_rad :: "Tank \<Rightarrow> real \<Rightarrow> real \<Rightarrow> real \<Rightarrow> real \<Rightarrow> real \<Rightarrow> real" where
  "Q_rad self L_in_max t1 emis_mli t_mli dv =
     (let T_tank = self_T0 self;
          T_amb = 300;
          eps2 = mp_emissivity (self_mat2_property self);
          r1 = self_R_in self + t1 + t_mli;
          r2 = r1 + dv;
          A1 = 2 * pi * r1 * (L_in_max + 2 * r1);
          A2 = 2 * pi * r2 * (L_in_max + 2 * r2);
          num = 5.670374419 / 100000000 * (T_amb ^ 4 - T_tank ^ 4);
          denom = 1 / emis_mli + (1 / eps2) - 1
      in num * A2 / denom)"

definition total_heat_influx ::
  "Tank \<Rightarrow> real \<Rightarrow> real \<Rightarrow> real \<Rightarrow> real \<Rightarrow> real \<Rightarrow> real \<Rightarrow> real \<Rightarrow> real \<Rightarrow> real" where
  "total_heat_influx self L_in_max Q_str t1 emis_mli k_vac t_mli k_mli dv =
     (let Q_cond_value = Q_cond self L_in_max t1 k_vac t_mli k_mli dv;
          Q_rad_value = Q_rad self L_in_max t1 emis_mli t_mli dv
      in Q_cond_value + Q_rad_value + Q_str)"

definition equation ::
  "Tank \<Rightarrow> real \<Rightarrow> real \<Rightarrow> real \<Rightarrow> real \<Rightarrow> real \<Rightarrow> real \<Rightarrow> real \<Rightarrow> real \<Rightarrow> real \<Rightarrow> real" where
  "equation self L_in_max Q_str t1 emis_mli k_vac t_mli k_mli Q_in_max dv =
     total_heat_influx self L_in_max Q_str t1 emis_mli k_vac t_mli k_mli dv - Q_in_max"

text \<open>
  \<^verbatim>\<open>Tank.heat_influx\<close>. The argument \<open>fsolve\<close> stands for
  \<^verbatim>\<open>scipy.optimize.fsolve(equation, dv_initial_guess)[0]\<close>; it returns its last iterate
  whether or not it converged. The emissivities are Python floats, so a zero emissivity
  raises inside the first evaluation of the radiation term.
\<close>

definition heat_influx ::
  "((real \<Rightarrow> real) \<Rightarrow> real \<Rightarrow> real) \<Rightarrow> Tank \<Rightarrow> real \<Rightarrow> real \<Rightarrow> real \<Rightarrow> real \<Rightarrow> real \<Rightarrow> real \<Rightarrow> real
     \<Rightarrow> real \<Rightarrow> error + real \<times> real \<times> real \<times> real \<times> real \<times> real" where
  "heat_influx fsolve self L_in_max Q_str t1 emis_mli k_vac t_mli k_mli Qmax =
     (let P_amb = 101325;
          r_in = self_R_in self;
          Q_in_max = Qmax
      in if emis_mli = 0 \<or> mp_emissivity (self_mat2_property self) = 0 then Inl ZeroDivisionError
         else
           let dv_initial_guess = 0.01;
               dv = fsolve (equation self L_in_max Q_str t1 emis_mli k_vac t_mli k_mli Q_in_max)
                      dv_initial_guess;
               t2_min = 1000;
               P_test = P_amb;
               alpha = 0;
               (t2_min, alpha) =
                 (if is_composite (self_material2 self) then
                    let N_theta_p = P_test * (r_in + t1 + dv + t_mli);
                        N_phi_p = P_test * (r_in + t1 + dv + t_mli) / 2;
                        angle = [0, 90, 0.1]
                    in angle_search (netting_thickness N_theta_p N_phi_p (self_mat2_property self))
                         angle (t2_min, alpha)
                  else (P_amb * (r_in + t1 + dv + t_mli)
                          / mp_yield_strength (self_mat2_property self), alpha))
           in Inr (dv, t2_min, alpha, Q_in_max,
                   Q_cond self L_in_max t1 k_vac t_mli k_mli dv,
                   Q_rad self L_in_max t1 emis_mli t_mli dv))"

subsection \<open>Tank dimensions, mass and footprint\<close>

definition total_volume :: "Tank \<Rightarrow> real \<Rightarrow> real \<Rightarrow> real \<Rightarrow> real \<Rightarrow> real \<Rightarrow> real" where
  "total_volume self l dv t1 t2 t_mli =
     (let R_out = self_R_in self + dv + t1 + t2 + t_mli
      in pi * R_out\<^sup>2 * (l - 2 * self_R_in self) + (4 / 3) * pi * R_out ^ 3)"

definition total_mass ::
  "Tank \<Rightarrow> real \<Rightarrow> real \<Rightarrow> real \<Rightarrow> real \<Rightarrow> real \<Rightarrow> real \<Rightarrow> real \<times> real \<times> real" where
  "total_mass self l dv t1 t2 t_mli dens_mli =
     (let R_out = self_R_in self + dv + t1 + t2 + t_mli;
          L_cyl = l - 2 * self_R_in self;
          surface_inner = 2 * pi * self_R_in self * L_cyl + 4 * pi * (self_R_in self)\<^sup>2;
          surface_outer = 2 * pi * R_out * L_cyl + 4 * pi * R_out\<^sup>2;
          mass_inner = surface_inner * t1 * mp_density (self_mat_property self);
          mass_outer = surface_outer * t2 * mp_density (self_mat2_property self);
          mass_mli = surface_inner * t_mli * dens_mli
      in (mass_inner, mass_outer, mass_mli))"

definition kg_co2 :: "Tank \<Rightarrow> real \<Rightarrow> real \<Rightarrow> real \<Rightarrow> real \<Rightarrow> real \<Rightarrow> real \<Rightarrow> real" where
  "kg_co2 self mass_inner mass_outer mass_mli mass_str mli_co2 co2_kevlar =
     (let lca_inner = mass_inner * mp_co2 (self_mat_property self);
          lca_outer = mass_outer * mp_co2 (self_mat2_property self);
          lca_mli = mass_mli * mli_co2;
          lca_str = mass_str * co2_kevlar
      in lca_inner + lca_outer + lca_mli + lca_str)"

definition embodied_energy :: "Tank \<Rightarrow> real \<Rightarrow> real \<Rightarrow> real \<Rightarrow> real \<Rightarrow> real \<Rightarrow> real \<Rightarrow> real" where
  "embodied_energy self mass_inner mass_outer mass_mli mass_str kevlar_ee mli_ee =
     (let ee_inner = mass_inner * mp_ee (self_mat_property self);
          ee_outer = mass_outer * mp_ee (self_mat2_property self);
          ee_mli = mass_mli * mli_ee;
          ee_str = mass_str * kevlar_ee
      in ee_inner + ee_outer + ee_mli + ee_str)"

subsection \<open>Database and constants of the script\<close>

definition SF :: real where "SF = 0.9"

definition materials_db :: "string list" where
  "materials_db = [''Al-7075-T6'', ''G10'', ''SS-304'', ''Carbon Fibre Woven Prepreg (QI)'', ''SS-316'']"

definition mat_properties_db :: "mat_props list" where
  "mat_properties_db =
     [\<lparr> mp_density = 2800, mp_yield_strength = 495 * 1000000 * SF, mp_thermal_conductivity = 134,
        mp_emissivity = 0.11, mp_co2 = 7.795, mp_ee = 106, mp_fibre_ratio = 0 \<rparr>,
      \<lparr> mp_density = 1900, mp_yield_strength = 298 * 1000000 * SF, mp_thermal_conductivity = 0.5,
        mp_emissivity = 0.95, mp_co2 = 15.25, mp_ee = 369, mp_fibre_ratio = 0.4 \<rparr>,
      \<lparr> mp_density = 7955, mp_yield_strength = 257.5 * 1000000 * SF, mp_thermal_conductivity = 15.5,
        mp_emissivity = 0.35, mp_co2 = 3, mp_ee = 42.75, mp_fibre_ratio = 0 \<rparr>,
      \<lparr> mp_density = 1575, mp_yield_strength = 549.5 * 1000000 * SF, mp_thermal_conductivity = 1.64,
        mp_emissivity = 0.77, mp_co2 = 47.8, mp_ee = 686.5, mp_fibre_ratio = 0.625 \<rparr>,
      \<lparr> mp_density = 7970, mp_yield_strength = 257.5 * 1000000 * SF, mp_thermal_conductivity = 15,
        mp_emissivity = 0.35, mp_co2 = 4.265, mp_ee = 49.75, mp_fibre_ratio = 0 \<rparr>]"

definition MAWP :: real where "MAWP = 1200000"
definition n_mats :: nat where "n_mats = 2"
definition materials :: "string list" where "materials = take n_mats materials_db"
definition mat_properties :: "mat_props list" where "mat_properties = take n_mats mat_properties_db"

definition Q_og_str :: real where "Q_og_str = 0.4"
definition k_kevlar :: real where "k_kevlar = 1.9"
definition og_str_mass :: real where "og_str_mass = 2.1"
definition og_lh2 :: real where "og_lh2 = 6.2"
definition grav_idx :: real where "grav_idx = 0.35"
definition co2_kevlar :: real where "co2_kevlar = 13.1"
definition kevlar_ee :: real where "kevlar_ee = 257"

definition mass_h2 :: real where "mass_h2 = 532.65"
definition estimated_mass :: real where "estimated_mass = mass_h2 / grav_idx - mass_h2"
definition t_limit :: real where "t_limit = 0.001"

definition t_mli :: real where "t_mli = 10 * (1 / 1000)"
definition dens_mli :: real where "dens_mli = 180"
definition emis_mli :: real where "emis_mli = 0.23"
definition k_vac :: real where "k_vac = 0.015 * (1 / 10)"
definition k_mli :: real where "k_mli = 0.035"
definition mli_co2 :: real where "mli_co2 = 8.03"
definition mli_ee :: real where "mli_ee = 108.4"

subsection \<open>The sizing pipeline\<close>


text \<open>
  A computation that can raise or fail to return: \<^term>\<open>None\<close> is a run that does not
  return, \<^term>\<open>Some (Inl e)\<close> an exception that is not caught.
\<close>

type_synonym 'a run = "(error + 'a) option"

definition bind_run :: "'a run \<Rightarrow> ('a \<Rightarrow> 'b run) \<Rightarrow> 'b run" where
  "bind_run m f = (case m of None \<Rightarrow> None | Some (Inl e) \<Rightarrow> Some (Inl e) | Some (Inr v) \<Rightarrow> f v)"

text \<open>
  \<^verbatim>\<open>opt.root_scalar(f, bracket=[a, b], method='brentq')\<close>. SciPy evaluates the function at
  both ends of the bracket, returns an end where the function is zero, and raises
  \<^verbatim>\<open>ValueError\<close> (\<^verbatim>\<open>f(a) and f(b) must have different signs\<close>) when the two values have the
  same sign. The iteration that follows is the argument \<open>brentq\<close>; its result is the pair
  \<^verbatim>\<open>(converged, root)\<close>.
\<close>

type_synonym solver = "(real \<Rightarrow> real run) \<Rightarrow> real \<Rightarrow> real \<Rightarrow> (bool \<times> real) run"

definition root_scalar :: "solver \<Rightarrow> (real \<Rightarrow> real run) \<Rightarrow> real \<Rightarrow> real \<Rightarrow> (bool \<times> real) run" where
  "root_scalar brentq f a b =
     bind_run (f a) (\<lambda>fa.
     bind_run (f b) (\<lambda>fb.
       if fa = 0 then Some (Inr (True, a))
       else if fb = 0 then Some (Inr (True, b))
       else if fa * fb > 0 then Some (Inl ValueError)
       else brentq f a b))"

text \<open>
  \<^verbatim>\<open>compute_Qleak\<close>. When the solver reports no convergence the function only prints, and
  the \<^verbatim>\<open>return Qmax\<close> that follows reads a local that was never bound.
\<close>

definition compute_Qleak ::
  "solver \<Rightarrow> props \<Rightarrow> string \<Rightarrow> string \<Rightarrow> mat_props \<Rightarrow> real \<Rightarrow> real \<Rightarrow> real \<Rightarrow> mat_props \<Rightarrow> real
     \<Rightarrow> real \<Rightarrow> real \<Rightarrow> real \<Rightarrow> real run" where
  "compute_Qleak brentq PropsSI material material2 mat_property MAWP' mass_h2' Q_str mat2_property
       str_mass fill_ratio V_in P_vent =
     bind_run (Some (Tank_init PropsSI MAWP' material material2 mat_property mass_h2' mat2_property
                       fill_ratio V_in P_vent)) (\<lambda>tankh2.
     bind_run (root_scalar brentq (maximum_Qin PropsSI tankh2)
                 (self_Q_leak_min tankh2) (self_Q_leak_max tankh2)) (\<lambda>(converged, root).
       if converged then Some (Inr root) else Some (Inl UnboundLocalError)))"

text \<open>The tuple returned by \<^verbatim>\<open>compute_tank_volume\<close>, in the order of the source.\<close>

record sizing =
  r_Vt :: real
  r_Mt :: real
  r_mass_error :: real
  r_Vh2 :: real
  r_t1 :: real
  r_t2 :: real
  r_dv :: real
  r_L_in :: real
  r_R_in :: real
  r_co2_kg :: real
  r_embodied_energy :: real
  r_ang1_w :: real
  r_ang2_w :: real
  r_P_vent :: real
  r_Qleak :: real
  r_Qcond :: real
  r_Qrad :: real

text \<open>
  \<^verbatim>\<open>compute_tank_volume\<close>. A length solve that does not converge leaves \<^verbatim>\<open>L_in\<close> unbound,
  which raises at its first use, after the inner thickness has been computed.
\<close>

definition compute_tank_volume ::
  "solver \<Rightarrow> ((real \<Rightarrow> real) \<Rightarrow> real \<Rightarrow> real) \<Rightarrow> props \<Rightarrow> string \<Rightarrow> string \<Rightarrow> mat_props \<Rightarrow> real
     \<Rightarrow> real \<Rightarrow> real \<Rightarrow> mat_props \<Rightarrow> real \<Rightarrow> real \<Rightarrow> real \<Rightarrow> real \<Rightarrow> real \<Rightarrow> sizing run" where
  "compute_tank_volume brentq fsolve PropsSI material material2 mat_property MAWP' mass_h2' Q_str
       mat2_property str_mass fill_ratio V_in P_vent Qmax =
     bind_run (Some (Tank_init PropsSI MAWP' material material2 mat_property mass_h2' mat2_property
                       fill_ratio V_in P_vent)) (\<lambda>tankh2.
     bind_run (root_scalar brentq (\<lambda>l. Some (Inr (volume_equation tankh2 l)))
                 (2 * self_R_in tankh2) 10) (\<lambda>(converged, root).
     bind_run (Some (inner_tank_thickness tankh2)) (\<lambda>(t1, ang1_w).
       let t1 = (if t1 < t_limit then t_limit else t1)
       in if \<not> converged then Some (Inl UnboundLocalError)
          else
            let L_in = root
            in bind_run (Some (heat_influx fsolve tankh2 L_in Q_str t1 emis_mli k_vac t_mli k_mli Qmax))
                 (\<lambda>(dv, t2, ang2_w, Qleak, Qcond, Qrad).
                    let t2 = max t2 t_limit;
                        Vt = total_volume tankh2 L_in dv t1 t2 t_mli;
                        (mass_inner, mass_outer, mass_mli) =
                          total_mass tankh2 L_in dv t1 t2 t_mli dens_mli;
                        Mt = mass_inner + mass_outer + mass_mli + mass_h2';
                        Mt = Mt + str_mass;
                        mass_error = Mt - estimated_mass - mass_h2';
                        Vh2 = self_V_in tankh2;
                        co2_kg = kg_co2 tankh2 mass_inner mass_outer mass_mli str_mass mli_co2
                                   co2_kevlar;
                        embodied = embodied_energy tankh2 mass_inner mass_outer mass_mli str_mass
                                     kevlar_ee mli_ee
                    in Some (Inr \<lparr> r_Vt = Vt, r_Mt = Mt, r_mass_error = mass_error, r_Vh2 = Vh2,
                                   r_t1 = t1, r_t2 = t2, r_dv = dv, r_L_in = L_in,
                                   r_R_in = self_R_in tankh2, r_co2_kg = co2_kg,
                                   r_embodied_energy = embodied, r_ang1_w = ang1_w,
                                   r_ang2_w = ang2_w, r_P_vent = P_vent, r_Qleak = Qleak,
                                   r_Qcond = Qcond, r_Qrad = Qrad \<rparr>)))))"

subsection \<open>The sweep over vent pressures and material pairs\<close>

text \<open>
  What the sweep writes: the ten plot lists of the module and the file
  \<^verbatim>\<open>tank_results.csv\<close> (\<^term>\<open>None\<close> while the file does not exist, else its rows).
\<close>

datatype cell = Str string | Num real

record sweep_state =
  plot_mats :: "string list"
  plot_mats2 :: "string list"
  plot_MAWPS :: "real list"
  plot_volumes :: "real list"
  plot_masses :: "real list"
  plot_mass_errors :: "real list"
  plot_co2 :: "real list"
  plot_embodied_energy :: "real list"
  plot_P_vents :: "real list"
  plot_vh2 :: "real list"
  tank_results_csv :: "cell list list option"

definition csv_header :: "cell list" where
  "csv_header =
     map Str [''Material Inner'', ''Material Outer'', ''MAWP (Pa)'', ''Tank Volume (m^3)'',
       ''Tank Mass (kg)'', ''Mass Error (kg)'', ''Inner Tank Thickness (m)'',
       ''Outer Tank Thickness (m)'', ''Vacuum Gap (m)'', ''Inner Tank Length (m)'', ''Vh2 (m^3)'',
       ''R_in (m)'', ''CO2 (kg)'', ''Embodied Energy (MJ)'', ''Angle of winding inner'',
       ''Angle of winding outer'', ''P_vent'', ''Qleak'', ''Q_cond'', ''Q_rad'']"

definition csv_row :: "string \<Rightarrow> string \<Rightarrow> sizing \<Rightarrow> cell list" where
  "csv_row material material2 r =
     [Str material, Str material2, Num MAWP, Num (r_Vt r), Num (r_Mt r), Num (r_mass_error r),
      Num (r_t1 r), Num (r_t2 r), Num (r_dv r), Num (r_L_in r), Num (r_Vh2 r), Num (r_R_in r),
      Num (r_co2_kg r), Num (r_embodied_energy r), Num (r_ang1_w r), Num (r_ang2_w r),
      Num (r_P_vent r), Num (r_Qleak r), Num (r_Qcond r), Num (r_Qrad r)]"

text \<open>The appends and the file write that follow a sizing that returned.\<close>

definition record_result :: "string \<Rightarrow> string \<Rightarrow> real \<Rightarrow> sizing \<Rightarrow> sweep_state \<Rightarrow> sweep_state" where
  "record_result material material2 P_vent r st =
     \<lparr> plot_mats = plot_mats st @ [material],
       plot_mats2 = plot_mats2 st @ [material2],
       plot_MAWPS = plot_MAWPS st @ [MAWP],
       plot_volumes = plot_volumes st @ [r_Vt r],
       plot_masses = plot_masses st @ [r_Mt r],
       plot_mass_errors = plot_mass_errors st @ [r_mass_error r],
       plot_co2 = plot_co2 st @ [r_co2_kg r],
       plot_embodied_energy = plot_embodied_energy st @ [r_embodied_energy r],
       plot_P_vents = plot_P_vents st @ [P_vent],
       plot_vh2 = plot_vh2 st @ [r_Vh2 r],
       tank_results_csv =
         (case tank_results_csv st of
            None \<Rightarrow> Some [csv_header, csv_row material material2 r]
          | Some rows \<Rightarrow> Some (rows @ [csv_row material material2 r])) \<rparr>"

text \<open>
  How a stretch of the sweep ends: it ran to its end, or an exception left it. Both carry
  what had been written by then. The source has no \<^verbatim>\<open>try\<close> around any sizing call.
\<close>

datatype outcome = Finished sweep_state | Raised error sweep_state

text \<open>The body of the innermost loop: one material pair at one vent pressure.\<close>

definition sweep_body ::
  "solver \<Rightarrow> ((real \<Rightarrow> real) \<Rightarrow> real \<Rightarrow> real) \<Rightarrow> props \<Rightarrow> real \<Rightarrow> real \<Rightarrow> real \<Rightarrow> real \<Rightarrow> string
     \<Rightarrow> mat_props \<Rightarrow> string \<Rightarrow> mat_props \<Rightarrow> sweep_state \<Rightarrow> outcome option" where
  "sweep_body brentq fsolve PropsSI P_vent V_in fill_ratio Qmax material mat_property material2
       mat2_property st =
     (let og_tank_mass = (if is_composite material then 4.8 + 3.15 else 8.4 + 3.6);
          ratio = og_str_mass / (og_tank_mass + og_lh2);
          str_mass = estimated_mass * ratio;
          Q_str = Q_og_str * sqrt (ratio / ratio)
      in case compute_tank_volume brentq fsolve PropsSI material material2 mat_property MAWP
                mass_h2 Q_str mat2_property str_mass fill_ratio V_in P_vent Qmax of
           None \<Rightarrow> None
         | Some (Inl e) \<Rightarrow> Some (Raised e st)
         | Some (Inr r) \<Rightarrow> Some (Finished (record_result material material2 P_vent r st)))"

fun for_material2 ::
  "solver \<Rightarrow> ((real \<Rightarrow> real) \<Rightarrow> real \<Rightarrow> real) \<Rightarrow> props \<Rightarrow> real \<Rightarrow> real \<Rightarrow> real \<Rightarrow> real \<Rightarrow> string
     \<Rightarrow> mat_props \<Rightarrow> (string \<times> mat_props) list \<Rightarrow> sweep_state \<Rightarrow> outcome option" where
  "for_material2 brentq fsolve PropsSI P_vent V_in fill_ratio Qmax material mat_property [] st =
     Some (Finished st)"
| "for_material2 brentq fsolve PropsSI P_vent V_in fill_ratio Qmax material mat_property
       ((material2, mat2_property) # rest) st =
     (case sweep_body brentq fsolve PropsSI P_vent V_in fill_ratio Qmax material mat_property
             material2 mat2_property st of
        None \<Rightarrow> None
      | Some (Raised e st') \<Rightarrow> Some (Raised e st')
      | Some (Finished st') \<Rightarrow>
          for_material2 brentq fsolve PropsSI P_vent V_in fill_ratio Qmax material mat_property
            rest st')"




subsection \<open>States of a run of the integrator\<close>

text \<open>
  The states the loop of \<^verbatim>\<open>maximum_Qin\<close> goes through: the initial lists, and the lists
  after one more pass from a state whose pressure is still below the vent pressure.
\<close>

inductive trajectory :: "props \<Rightarrow> Tank \<Rightarrow> real \<Rightarrow> sim \<Rightarrow> bool"
  for PropsSI :: props and self :: Tank and Qleak :: real where
  start: "trajectory PropsSI self Qleak (sim_init self)"
| pass: "trajectory PropsSI self Qleak s \<Longrightarrow> last (v_P s) < self_Pvent self \<Longrightarrow>
         loop_body PropsSI self Qleak s = Inr s' \<Longrightarrow> trajectory PropsSI self Qleak s'"

code_pred trajectory .

text \<open>
  A pass that clamps appends to the vapour masses only, every other pass appends to the
  vapour and the liquid masses alike: the clamp has triggered in some pass so far exactly
  when the list of liquid masses is the shorter one.
\<close>

definition clamp_triggered :: "sim \<Rightarrow> bool" where
  "clamp_triggered s \<longleftrightarrow> length (v_ml s) < length (v_mg s)"

subsection \<open>A synthetic property provider and solver stubs\<close>

text \<open>
  A provider with closed-form properties, for running the functions on concrete inputs:
  the saturation line is \<open>T = P\<close>, the vapour has density 1 and enthalpy 1, the liquid
  density 2 and enthalpy 0, and the only non-zero derivative is \<open>d(H)/d(T)|P = 1\<close>.
\<close>

definition toy_PropsSI :: props where
  "toy_PropsSI output name1 value1 name2 value2 fluid =
     (if output = ''T'' \<or> output = ''P'' then value1
      else if output = ''D'' then (if value2 = 1 then 1 else 2)
      else if output = ''H'' then (if value2 = 1 then 1 else 0)
      else if output = ''d(H)/d(T)|P'' then 1
      else 0)"

text \<open>What every state of a run with the synthetic provider satisfies.\<close>

definition toy_inv :: "Tank \<Rightarrow> real \<Rightarrow> sim \<Rightarrow> bool" where
  "toy_inv self a s \<longleftrightarrow>
     last (v_T s) = last (v_P s) \<and> last (v_rhog s) = 1 \<and> last (v_rhol s) = 2 \<and>
     last (v_hg s) = 1 \<and> last (v_hl s) = 0 \<and> 0 < last (v_mg s) \<and>
     last (v_ml s) + last (v_mg s) - self_V_in self = a"

text \<open>A bracketing solver that reports convergence at 100, and a gap solver that returns
  its initial guess.\<close>

definition toy_brentq :: solver where
  "toy_brentq f a b = Some (Inr (True, 100))"


text \<open>The tank \<^verbatim>\<open>Tank(MAWP, 'Al-7075-T6', 'G10', ..., fill=0.5, V_in=200, p_vent=600000)\<close>
  over the synthetic provider.\<close>

definition demo_tank :: Tank where
  "demo_tank =
     \<lparr> self_material = ''Al-7075-T6'', self_material2 = ''G10'',
       self_mat_property = mat_properties ! 0, self_mat2_property = mat_properties ! 1,
       self_dormancy = 24, self_fill_ratio = 1 / 2, self_mass_h2 = mass_h2,
       self_stratification_factor = 2, self_k_str = 1.9,
       self_MAWP = MAWP, self_Pvent = 600000,
       self_P0 = 101000, self_T0 = 101000, self_rhol0 = 2, self_rhog0 = 1,
       self_V_in = 200, self_mg0 = 100, self_ml0 = 200, self_hg0 = 1,
       self_hl0 = 0, self_x0 = 1 / 3,
       self_R_in = 0.8, self_Q_leak_min = 10, self_Q_leak_max = 1000 \<rparr>"


text \<open>The invariant of the two mass lists along a run.\<close>

definition mass_inv :: "Tank \<Rightarrow> sim \<Rightarrow> bool" where
  "mass_inv self s \<longleftrightarrow>
     v_ml s \<noteq> [] \<and> length (v_ml s) \<le> length (v_mg s) \<and>
     (\<not> clamp_triggered s \<longrightarrow>
        (\<forall>i<length (v_mg s). v_mg s ! i + v_ml s ! i = self_mg0 self + self_ml0 self))"

text \<open>The lists of \<^term>\<open>demo_tank\<close> after one pass with a heat input of 10 W.\<close>

definition demo_state1 :: sim where
  "demo_state1 =
     \<lparr> v_P = [101000, 101050], v_T = [101000, 101050], v_mg = [100, 100], v_ml = [200, 200],
       v_rhog = [1, 1], v_rhol = [2, 2], v_hg = [1, 1], v_hl = [0, 0], v_x = [1 / 3, 1 / 3],
       v_Ps = [101000, 101050], v_time = [0, 250] \<rparr>"




section \<open>Properties\<close>

subsection \<open>The linear solve and the loop\<close>

lemma linalg_solve_Inr:
  "linalg_solve M B = Inr X \<Longrightarrow>
     det4 M \<noteq> 0 \<and> X = map (\<lambda>j. [det4 (replace_col M j B) / det4 M]) [0, 1, 2, 3]"
  by (auto simp: linalg_solve_def split: if_splits)

text \<open>The third row of the system, \<open>x\<^sub>3 + x\<^sub>4 = 0\<close>, holds of the solution.\<close>

lemma linalg_solve_row3:
  assumes "linalg_solve [[a11, a12, a13, a14], [a21, a22, a23, a24], [0, 0, 1, 1],
                         [a41, a42, a43, a44]] [[b1], [b2], [0], [b4]] = Inr X"
  shows "X ! 2 ! 0 + X ! 3 ! 0 = 0"
proof -
  let ?M = "[[a11, a12, a13, a14], [a21, a22, a23, a24], [0, 0, 1, 1], [a41, a42, a43, a44]]"
  let ?B = "[[b1], [b2], [0], [b4]]"
  from linalg_solve_Inr [OF assms]
  have X: "X = map (\<lambda>j. [det4 (replace_col ?M j ?B) / det4 ?M]) [0, 1, 2, 3]"
    by blast
  have "det4 (replace_col ?M 2 ?B) + det4 (replace_col ?M 3 ?B) = 0"
    by (simp add: replace_col_def det4_def det3_def algebra_simps)
  then have "det4 (replace_col ?M 2 ?B) / det4 ?M + det4 (replace_col ?M 3 ?B) / det4 ?M = 0"
    by (simp add: add_divide_distrib [symmetric])
  then show ?thesis by (simp add: X)
qed

lemma rates_mass:
  assumes "rates PropsSI self Qleak s = Inr (dP_dt, dT_dt, dmg_dt, dml_dt)"
  shows "dmg_dt + dml_dt = 0"
  using assms
  by (auto simp: rates_def Let_def split: if_splits sum.splits dest: linalg_solve_row3)

text \<open>The invariant rule of the loop, and the elapsed time as a count of steps.\<close>

lemma while_loop_invariant_aux:
  assumes step: "\<And>s s'. I s \<Longrightarrow> b s \<Longrightarrow> c s = Inr s' \<Longrightarrow> I s'"
  shows "while_loop b' c' s = Some r \<Longrightarrow> b' = b \<Longrightarrow> c' = c \<Longrightarrow> I s \<Longrightarrow> r = Inr t
           \<Longrightarrow> I t \<and> \<not> b t"
proof (induction b' c' s r rule: while_loop.raw_induct [rotated, consumes 1, case_names unfold])
  case (unfold h b' c' s r)
  show ?case
  proof (cases "b s")
    case False
    with unfold show ?thesis by simp
  next
    case True
    with unfold(2,3,4,6) obtain s' where s': "c s = Inr s'" "h b c s' = Some (Inr t)"
      by (auto split: sum.splits)
    from step [OF unfold(5) True s'(1)] have "I s'" .
    with unfold(1) [OF s'(2)] show ?thesis by simp
  qed
qed

lemma while_loop_invariant:
  assumes "while_loop b c s = Some (Inr t)" "I s"
    and "\<And>s s'. I s \<Longrightarrow> b s \<Longrightarrow> c s = Inr s' \<Longrightarrow> I s'"
  shows "I t \<and> \<not> b t"
  using while_loop_invariant_aux [of I b c b c s "Inr t" t] assms by blast



lemma Tank_init_fields:
  assumes "Tank_init PropsSI M mat mat2 mp mh mp2 fill V pv = Inr self"
  shows "self_dormancy self = 24" "self_stratification_factor self = 2" "self_Pvent self = pv"
    "self_V_in self = V" "self_P0 self = 101000"
  using assms by (auto simp: Tank_init_def Let_def split: if_splits)

text \<open>One pass either clamps the vapour mass or advances both masses.\<close>

lemma loop_body_cases:
  assumes "loop_body PropsSI self Qleak s = Inr s'"
  obtains (clamp) dP_dt dT_dt dmg_dt dml_dt where
      "rates PropsSI self Qleak s = Inr (dP_dt, dT_dt, dmg_dt, dml_dt)"
      "last (v_mg s) + 250 * dmg_dt \<le> 0"
      "v_mg s' = v_mg s @ [0]" "v_ml s' = v_ml s"
    | (update) dP_dt dT_dt dmg_dt dml_dt where
      "rates PropsSI self Qleak s = Inr (dP_dt, dT_dt, dmg_dt, dml_dt)"
      "\<not> last (v_mg s) + 250 * dmg_dt \<le> 0"
      "v_mg s' = v_mg s @ [last (v_mg s) + 250 * dmg_dt]"
      "v_ml s' = v_ml s @ [last (v_ml s) + 250 * dml_dt]"
proof -
  from assms obtain r where r: "rates PropsSI self Qleak s = Inr r" "s' = update_state PropsSI r s"
    by (auto simp: loop_body_def split: sum.splits)
  obtain dP_dt dT_dt dmg_dt dml_dt where rr: "r = (dP_dt, dT_dt, dmg_dt, dml_dt)"
    by (cases r) auto
  show thesis
  proof (cases "last (v_mg s) + 250 * dmg_dt \<le> 0")
    case True
    with r rr show ?thesis by (intro clamp) (simp_all add: update_state_def)
  next
    case False
    with r rr show ?thesis by (intro update) (simp_all add: update_state_def Let_def)
  qed
qed

lemma mass_inv_pass:
  assumes "mass_inv self s" "loop_body PropsSI self Qleak s = Inr s'"
  shows "mass_inv self s'"
  using assms(2)
proof (cases rule: loop_body_cases)
  case (clamp dP_dt dT_dt dmg_dt dml_dt)
  with assms(1) show ?thesis by (simp add: mass_inv_def clamp_triggered_def)
next
  case (update dP_dt dT_dt dmg_dt dml_dt)
  from rates_mass [OF update(1)] have z: "dmg_dt + dml_dt = 0" .
  show ?thesis
  proof (cases "clamp_triggered s")
    case True
    with assms(1) update show ?thesis by (simp add: mass_inv_def clamp_triggered_def)
  next
    case False
    with assms(1) have len: "length (v_mg s) = length (v_ml s)" and ne: "v_ml s \<noteq> []" "v_mg s \<noteq> []"
      and all: "\<forall>i<length (v_mg s). v_mg s ! i + v_ml s ! i = self_mg0 self + self_ml0 self"
      by (auto simp: mass_inv_def clamp_triggered_def)
    have "last (v_mg s) + last (v_ml s) = self_mg0 self + self_ml0 self"
      using all ne len by (simp add: last_conv_nth)
    then have new: "(last (v_mg s) + 250 * dmg_dt) + (last (v_ml s) + 250 * dml_dt)
        = self_mg0 self + self_ml0 self"
      using z by (simp add: algebra_simps)
    show ?thesis
      unfolding mass_inv_def
    proof (intro conjI impI allI)
      fix i assume "i < length (v_mg s')"
      then have "i < length (v_mg s) \<or> i = length (v_mg s)" by (auto simp: update(3))
      then show "v_mg s' ! i + v_ml s' ! i = self_mg0 self + self_ml0 self"
        using all new len by (auto simp: update(3,4) nth_append)
    qed (use ne len in \<open>simp_all add: update(3,4)\<close>)
  qed
qed

lemma trajectory_mass_inv: "trajectory PropsSI self Qleak s \<Longrightarrow> mass_inv self s"
proof (induction rule: trajectory.induct)
  case start
  show ?case by (simp add: mass_inv_def sim_init_def clamp_triggered_def)
next
  case (pass s s')
  then show ?case by (blast intro: mass_inv_pass)
qed

subsection \<open>Runs with the synthetic provider\<close>

lemma toy_simps:
  "toy_PropsSI ''T'' n1 v1 n2 v2 f = v1"
  "toy_PropsSI ''P'' n1 v1 n2 v2 f = v1"
  "toy_PropsSI ''D'' n1 v1 n2 1 f = 1"
  "toy_PropsSI ''D'' n1 v1 n2 0 f = 2"
  "toy_PropsSI ''H'' n1 v1 n2 1 f = 1"
  "toy_PropsSI ''H'' n1 v1 n2 0 f = 0"
  "toy_PropsSI ''d(H)/d(T)|P'' n1 v1 n2 v2 f = 1"
  "toy_PropsSI ''d(H)/d(P)|T'' n1 v1 n2 v2 f = 0"
  "toy_PropsSI ''d(D)/d(T)|P'' n1 v1 n2 v2 f = 0"
  "toy_PropsSI ''d(D)/d(P)|T'' n1 v1 n2 v2 f = 0"
  by (simp_all add: toy_PropsSI_def)

lemma toy_rates:
  assumes "last (v_T s) = last (v_P s)" "last (v_rhog s) = 1" "last (v_rhol s) = 2"
    "last (v_hg s) = 1" "last (v_hl s) = 0"
    "last (v_ml s) + last (v_mg s) - self_V_in self = a" "a \<noteq> 0"
  shows "rates toy_PropsSI self Qleak s =
     Inr (Qleak / a * self_stratification_factor self, Qleak / a, 0, 0)"
proof -
  have neg: "self_V_in self - (last (v_ml s) + last (v_mg s)) = - a"
    using assms(6) by simp
  show ?thesis
    using assms(1-5,7)
    by (simp add: rates_def toy_simps Let_def linalg_solve_def det4_def det3_def replace_col_def
        assms(6) neg)
qed

lemma demo_tank_init:
  "Tank_init toy_PropsSI MAWP ''Al-7075-T6'' ''G10'' (mat_properties ! 0) mass_h2
     (mat_properties ! 1) (1 / 2) 200 600000 = Inr demo_tank"
  by (simp add: Tank_init_def toy_simps demo_tank_def)

lemma demo_pass: "loop_body toy_PropsSI demo_tank 10 (sim_init demo_tank) = Inr demo_state1"
proof -
  have "rates toy_PropsSI demo_tank 10 (sim_init demo_tank) = Inr (10 / 100 * 2, 10 / 100, 0, 0)"
    using toy_rates [of "sim_init demo_tank" demo_tank 100 10]
    by (simp add: sim_init_def demo_tank_def)
  then show ?thesis
    by (simp add: loop_body_def update_state_def sim_init_def demo_tank_def demo_state1_def
        toy_simps Let_def)
qed

lemma demo_trajectory: "trajectory toy_PropsSI demo_tank 10 demo_state1"
proof (rule trajectory.pass)
  show "trajectory toy_PropsSI demo_tank 10 (sim_init demo_tank)" by (rule trajectory.start)
  show "last (v_P (sim_init demo_tank)) < self_Pvent demo_tank"
    by (simp add: sim_init_def demo_tank_def)
  show "loop_body toy_PropsSI demo_tank 10 (sim_init demo_tank) = Inr demo_state1"
    by (rule demo_pass)
qed

lemma toy_pass:
  assumes "toy_inv self a s" "a \<noteq> 0" "self_stratification_factor self = 2"
  shows "\<exists>s'. loop_body toy_PropsSI self Qleak s = Inr s' \<and> toy_inv self a s' \<and>
           last (v_P s') = last (v_P s) + 500 * Qleak / a \<and>
           last (v_time s') = last (v_time s) + 250"
proof -
  from assms(1) have r: "rates toy_PropsSI self Qleak s =
     Inr (Qleak / a * self_stratification_factor self, Qleak / a, 0, 0)"
    unfolding toy_inv_def by (intro toy_rates) (use assms(2) in auto)
  show ?thesis
    using assms(1,3)
    by (simp add: loop_body_def r update_state_def toy_inv_def toy_simps Let_def)
qed

lemma toy_while:
  assumes "a \<noteq> 0" "self_stratification_factor self = 2" "d = 500 * Qleak / a"
  shows "toy_inv self a s \<Longrightarrow> (\<forall>k<n. last (v_P s) + real k * d < self_Pvent self) \<Longrightarrow>
     self_Pvent self \<le> last (v_P s) + real n * d \<Longrightarrow>
     \<exists>s'. while_loop (\<lambda>s. last (v_P s) < self_Pvent self) (loop_body toy_PropsSI self Qleak) s
            = Some (Inr s') \<and> last (v_time s') = last (v_time s) + 250 * int n"
proof (induction n arbitrary: s)
  case 0
  then show ?case by (subst while_loop.simps) simp
next
  case (Suc n)
  from toy_pass [OF Suc.prems(1) assms(1,2), of Qleak] obtain s1 where
    s1: "loop_body toy_PropsSI self Qleak s = Inr s1" "toy_inv self a s1"
      "last (v_P s1) = last (v_P s) + d" "last (v_time s1) = last (v_time s) + 250"
    using assms(3) by auto
  from Suc.prems(2) have b: "last (v_P s) < self_Pvent self" by force
  have "\<forall>k<n. last (v_P s1) + real k * d < self_Pvent self"
  proof (intro allI impI)
    fix k assume "k < n"
    then have "last (v_P s) + real (Suc k) * d < self_Pvent self"
      using Suc.prems(2) by (meson Suc_mono)
    then show "last (v_P s1) + real k * d < self_Pvent self"
      by (simp add: s1(3) algebra_simps)
  qed
  moreover have "self_Pvent self \<le> last (v_P s1) + real n * d"
    using Suc.prems(3) by (simp add: s1(3) algebra_simps)
  ultimately obtain s' where
    "while_loop (\<lambda>s. last (v_P s) < self_Pvent self) (loop_body toy_PropsSI self Qleak) s1
       = Some (Inr s')" "last (v_time s') = last (v_time s1) + 250 * int n"
    using Suc.IH [OF s1(2)] by blast
  then show ?case
    using b s1(1,4) by (subst while_loop.simps) simp
qed

lemma toy_maximum_Qin:
  assumes init: "Tank_init toy_PropsSI M mat mat2 mp mh mp2 fill V pv = Inr self"
    and pos: "0 < V * (1 - fill)" and a: "V * fill \<noteq> 0"
    and d: "d = 500 * Qleak / (V * fill)"
    and below: "\<forall>k<n. 101000 + real k * d < pv" and reach: "pv \<le> 101000 + real n * d"
  shows "maximum_Qin toy_PropsSI self Qleak = Some (Inr (real_of_int (250 * int n) / 3600 - 24))"
proof -
  from init have self: "self_dormancy self = 24" "self_stratification_factor self = 2"
    "self_Pvent self = pv" "self_V_in self = V" "self_P0 self = 101000"
    by (rule Tank_init_fields)+
  from init have st: "sim_init self =
    \<lparr> v_P = [101000], v_T = [101000], v_mg = [V * (1 - fill)], v_ml = [2 * V * fill],
       v_rhog = [1], v_rhol = [2], v_hg = [1], v_hl = [0], v_x = [self_x0 self],
       v_Ps = [101000], v_time = [0] \<rparr>"
    by (auto simp: Tank_init_def Let_def toy_simps sim_init_def split: if_splits)
  have inv: "toy_inv self (V * fill) (sim_init self)"
    using pos by (simp add: st toy_inv_def self algebra_simps)
  have lp: "last (v_P (sim_init self)) = 101000" by (simp add: st)
  from toy_while [OF a self(2) d inv, of n] below reach
  obtain s' where
    "while_loop (\<lambda>s. last (v_P s) < self_Pvent self) (loop_body toy_PropsSI self Qleak)
       (sim_init self) = Some (Inr s')"
    "last (v_time s') = last (v_time (sim_init self)) + 250 * int n"
    unfolding lp self(3) by blast
  then show ?thesis
    by (simp add: maximum_Qin_def self st)
qed




text \<open>The lists a run of \<^verbatim>\<open>maximum_Qin\<close> ends with are a state of its trajectory.\<close>

lemma final_state_trajectory:
  assumes "while_loop (\<lambda>s. last (v_P s) < self_Pvent self) (loop_body PropsSI self Qleak)
             (sim_init self) = Some (Inr t)"
  shows "trajectory PropsSI self Qleak t \<and> \<not> last (v_P t) < self_Pvent self"
  by (rule while_loop_invariant [OF assms]) (auto intro: trajectory.intros)

subsection \<open>Mass conservation\<close>

text \<open>
  C1. In every state of a run in which the zero-vapour clamp has not triggered, every
  recorded sample of the vapour mass and the liquid mass add up to the initial fluid mass,
  whatever the heat input and the property provider.
\<close>

theorem mass_conservation:
  assumes "trajectory PropsSI self Qleak s" "\<not> clamp_triggered s" "i < length (v_mg s)"
  shows "v_mg s ! i + v_ml s ! i = self_mg0 self + self_ml0 self"
  using trajectory_mass_inv [OF assms(1)] assms(2,3) by (simp add: mass_inv_def)

theorem mass_conservation_witness:
  "trajectory toy_PropsSI demo_tank 10 demo_state1 \<and> \<not> clamp_triggered demo_state1 \<and>
   1 < length (v_mg demo_state1) \<and>
   v_mg demo_state1 ! 1 + v_ml demo_state1 ! 1 = self_mg0 demo_tank + self_ml0 demo_tank"
proof -
  have c: "\<not> clamp_triggered demo_state1" by (simp add: clamp_triggered_def demo_state1_def)
  have l: "1 < length (v_mg demo_state1)" by (simp add: demo_state1_def)
  show ?thesis
    using demo_trajectory c l mass_conservation [OF demo_trajectory c l] by simp
qed

subsection \<open>The dormancy objective\<close>





subsection \<open>One pass through the loop\<close>

text \<open>
  C3. In one pass the pressure and the temperature always get a new sample. When the
  Euler-updated vapour mass is not positive, zero is appended to the vapour masses and the
  liquid masses, qualities, densities, enthalpies, saturation pressures and elapsed times
  are left as they are, no sample appended; otherwise every list gets its new sample and
  the elapsed time advances by the step of 250 s.
\<close>

theorem clamp_or_update:
  assumes "loop_body PropsSI self Qleak s = Inr s'"
  shows "\<exists>dP_dt dT_dt dmg_dt dml_dt.
     rates PropsSI self Qleak s = Inr (dP_dt, dT_dt, dmg_dt, dml_dt) \<and>
     v_P s' = v_P s @ [last (v_P s) + 250 * dP_dt] \<and>
     v_T s' = v_T s @ [PropsSI ''T'' ''P'' (last (v_P s')) ''Q'' 0.1 ''ParaHydrogen''] \<and>
     (if last (v_mg s) + 250 * dmg_dt \<le> 0
      then v_mg s' = v_mg s @ [0] \<and> v_ml s' = v_ml s \<and> v_x s' = v_x s \<and>
           v_rhog s' = v_rhog s \<and> v_rhol s' = v_rhol s \<and> v_hg s' = v_hg s \<and>
           v_hl s' = v_hl s \<and> v_Ps s' = v_Ps s \<and> v_time s' = v_time s
      else v_mg s' = v_mg s @ [last (v_mg s) + 250 * dmg_dt] \<and>
           v_ml s' = v_ml s @ [last (v_ml s) + 250 * dml_dt] \<and>
           v_x s' = v_x s @ [last (v_mg s') / (last (v_mg s') + last (v_ml s'))] \<and>
           v_rhog s' = v_rhog s @ [PropsSI ''D'' ''P'' (last (v_P s')) ''Q'' 1 ''ParaHydrogen''] \<and>
           v_rhol s' = v_rhol s @ [PropsSI ''D'' ''P'' (last (v_P s')) ''Q'' 0 ''ParaHydrogen''] \<and>
           v_hg s' = v_hg s @ [PropsSI ''H'' ''P'' (last (v_P s')) ''Q'' 1 ''ParaHydrogen''] \<and>
           v_hl s' = v_hl s @ [PropsSI ''H'' ''P'' (last (v_P s')) ''Q'' 0 ''ParaHydrogen''] \<and>
           v_Ps s' = v_Ps s @ [PropsSI ''P'' ''T'' (last (v_T s')) ''Q'' 0.5 ''ParaHydrogen''] \<and>
           v_time s' = v_time s @ [last (v_time s) + 250])"
proof -
  from assms obtain r where r: "rates PropsSI self Qleak s = Inr r" "s' = update_state PropsSI r s"
    by (auto simp: loop_body_def split: sum.splits)
  obtain dP_dt dT_dt dmg_dt dml_dt where rr: "r = (dP_dt, dT_dt, dmg_dt, dml_dt)"
    by (cases r) auto
  show ?thesis
    apply (rule exI [of _ dP_dt], rule exI [of _ dT_dt], rule exI [of _ dmg_dt], rule exI [of _ dml_dt])
    apply (simp add: r rr update_state_def Let_def)
    done
qed

theorem clamp_or_update_witness:
  "loop_body toy_PropsSI demo_tank 10 (sim_init demo_tank) = Inr demo_state1 \<and>
   v_time demo_state1 = v_time (sim_init demo_tank) @ [last (v_time (sim_init demo_tank)) + 250] \<and>
   v_mg demo_state1 = v_mg (sim_init demo_tank) @ [100]"
  using demo_pass clamp_or_update [OF demo_pass]
  by (simp add: demo_state1_def sim_init_def demo_tank_def)


subsection \<open>The hydrogen mass argument\<close>

lemma rates_mass_h2:
  "rates PropsSI (self\<lparr>self_mass_h2 := m\<rparr>) Qleak s = rates PropsSI self Qleak s"
  by (simp add: rates_def Let_def cong: sum.case_cong if_cong)

lemma loop_body_mass_h2:
  "loop_body PropsSI (self\<lparr>self_mass_h2 := m\<rparr>) Qleak = loop_body PropsSI self Qleak"
  by (rule ext) (simp add: loop_body_def rates_mass_h2)

lemma maximum_Qin_mass_h2:
  "maximum_Qin PropsSI (self\<lparr>self_mass_h2 := m\<rparr>) Qleak = maximum_Qin PropsSI self Qleak"
  by (simp add: maximum_Qin_def loop_body_mass_h2 sim_init_def
      cong: option.case_cong sum.case_cong)

lemma Tank_init_mass_h2:
  assumes "Tank_init PropsSI M mat mat2 mp m1 mp2 fill V pv = Inr tank1"
  shows "Tank_init PropsSI M mat mat2 mp m2 mp2 fill V pv = Inr (tank1\<lparr>self_mass_h2 := m2\<rparr>)"
  using assms by (auto simp: Tank_init_def Let_def split: if_splits)

text \<open>
  C10. Two tanks built from the same arguments except the hydrogen mass give the same
  result of \<^verbatim>\<open>maximum_Qin\<close>, for every heat input: the same value, the same exception,
  or no return for both.
\<close>

theorem mass_h2_independent:
  assumes "Tank_init PropsSI M mat mat2 mp m1 mp2 fill V pv = Inr tank1"
    and "Tank_init PropsSI M mat mat2 mp m2 mp2 fill V pv = Inr tank2"
  shows "maximum_Qin PropsSI tank1 Qleak = maximum_Qin PropsSI tank2 Qleak"
proof -
  from Tank_init_mass_h2 [OF assms(1), of m2] assms(2)
  have "tank2 = tank1\<lparr>self_mass_h2 := m2\<rparr>" by simp
  then show ?thesis by (simp add: maximum_Qin_mass_h2)
qed


theorem mass_h2_independent_witness:
  "Tank_init toy_PropsSI MAWP ''Al-7075-T6'' ''G10'' (mat_properties ! 0) mass_h2
     (mat_properties ! 1) (1 / 2) 200 600000 = Inr demo_tank \<and>
   Tank_init toy_PropsSI MAWP ''Al-7075-T6'' ''G10'' (mat_properties ! 0) 1
     (mat_properties ! 1) (1 / 2) 200 600000 = Inr (demo_tank\<lparr>self_mass_h2 := 1\<rparr>) \<and>
   maximum_Qin toy_PropsSI demo_tank 1000
     = maximum_Qin toy_PropsSI (demo_tank\<lparr>self_mass_h2 := 1\<rparr>) 1000"
proof -
  have t2: "Tank_init toy_PropsSI MAWP ''Al-7075-T6'' ''G10'' (mat_properties ! 0) 1
     (mat_properties ! 1) (1 / 2) 200 600000 = Inr (demo_tank\<lparr>self_mass_h2 := 1\<rparr>)"
    by (rule Tank_init_mass_h2 [OF demo_tank_init])
  show ?thesis
    using demo_tank_init t2 mass_h2_independent [OF demo_tank_init t2] by simp
qed


subsection \<open>The dormancy root-finder without a change of sign\<close>

lemma low_vent_init:
  "Tank_init toy_PropsSI MAWP ''Al-7075-T6'' ''G10'' (mat_properties ! 0) mass_h2
     (mat_properties ! 1) (1 / 2) 200 100000 = Inr (demo_tank\<lparr>self_Pvent := 100000\<rparr>)"
  by (simp add: Tank_init_def toy_simps demo_tank_def)

lemma low_vent_Qin:
  "maximum_Qin toy_PropsSI (demo_tank\<lparr>self_Pvent := 100000\<rparr>) Q = Some (Inr (- 24))"
proof -
  have "maximum_Qin toy_PropsSI (demo_tank\<lparr>self_Pvent := 100000\<rparr>) Q
      = Some (Inr (real_of_int (250 * int 0) / 3600 - 24))"
    by (rule toy_maximum_Qin [OF low_vent_init, where d = "500 * Q / (200 * (1 / 2))"]) auto
  then show ?thesis by simp
qed

text \<open>
  C5. When the objective \<^verbatim>\<open>maximum_Qin\<close> has the same strict sign at 10 W and at 1000 W,
  \<^verbatim>\<open>compute_Qleak\<close> does not return a heat leak: the \<^verbatim>\<open>ValueError\<close> of the bracket
  check leaves it uncaught, whatever the solver iteration would do.
\<close>

theorem no_sign_change_raises:
  assumes "Tank_init PropsSI MAWP' material material2 mat_property mass_h2' mat2_property
             fill_ratio V_in P_vent = Inr tankh2"
    and "maximum_Qin PropsSI tankh2 10 = Some (Inr fa)"
    and "maximum_Qin PropsSI tankh2 1000 = Some (Inr fb)"
    and "fa * fb > 0"
  shows "compute_Qleak brentq PropsSI material material2 mat_property MAWP' mass_h2' Q_str
           mat2_property str_mass fill_ratio V_in P_vent = Some (Inl ValueError)"
proof -
  from assms(1) have q: "self_Q_leak_min tankh2 = 10" "self_Q_leak_max tankh2 = 1000"
    by (auto simp: Tank_init_def Let_def split: if_splits)
  from assms(4) have nz: "fa \<noteq> 0" "fb \<noteq> 0" by auto
  have "root_scalar brentq (maximum_Qin PropsSI tankh2) 10 1000 = Some (Inl ValueError)"
    using assms(2,3,4) nz by (simp add: root_scalar_def bind_run_def)
  then show ?thesis
    by (simp add: compute_Qleak_def assms(1) q bind_run_def)
qed


theorem no_sign_change_raises_witness:
  "Tank_init toy_PropsSI MAWP ''Al-7075-T6'' ''G10'' (mat_properties ! 0) mass_h2
     (mat_properties ! 1) (1 / 2) 200 100000 = Inr (demo_tank\<lparr>self_Pvent := 100000\<rparr>) \<and>
   maximum_Qin toy_PropsSI (demo_tank\<lparr>self_Pvent := 100000\<rparr>) 10 = Some (Inr (- 24)) \<and>
   maximum_Qin toy_PropsSI (demo_tank\<lparr>self_Pvent := 100000\<rparr>) 1000 = Some (Inr (- 24)) \<and>
   (- 24 :: real) * (- 24) > 0 \<and>
   compute_Qleak toy_brentq toy_PropsSI ''Al-7075-T6'' ''G10'' (mat_properties ! 0) MAWP mass_h2 0
     (mat_properties ! 1) 0 (1 / 2) 200 100000 = Some (Inl ValueError)"
proof -
  have p: "(- 24 :: real) * (- 24) > 0" by simp
  show ?thesis
    using low_vent_init low_vent_Qin [of 10] low_vent_Qin [of 1000] p
      no_sign_change_raises [OF low_vent_init low_vent_Qin [of 10] low_vent_Qin [of 1000] p]
    by simp
qed


subsection \<open>Inner shell of an isotropic material\<close>

lemma materials_eval:
  "materials = [''Al-7075-T6'', ''G10'']"
  "mat_properties =
     [\<lparr> mp_density = 2800, mp_yield_strength = 445500000, mp_thermal_conductivity = 134,
        mp_emissivity = 0.11, mp_co2 = 7.795, mp_ee = 106, mp_fibre_ratio = 0 \<rparr>,
      \<lparr> mp_density = 1900, mp_yield_strength = 268200000, mp_thermal_conductivity = 0.5,
        mp_emissivity = 0.95, mp_co2 = 15.25, mp_ee = 369, mp_fibre_ratio = 0.4 \<rparr>]"
  by (simp_all add: materials_def mat_properties_def n_mats_def materials_db_def
      mat_properties_db_def SF_def eval_nat_numeral)


text \<open>
  C7. For a material that is not one of the two composites (and has a yield strength to
  divide by), the inner thickness is the test pressure \<open>(MAWP + 0.2 bar) \<times> 1.3\<close> times the
  radius over the yield strength, with winding angle 0. Hence, at the same radius, a tank
  with \<open>c\<close> times the test pressure and \<open>d\<close> times the yield strength has \<open>c / d\<close>
  times the thickness.
\<close>

theorem isotropic_thickness:
  assumes "\<not> is_composite (self_material self)" "mp_yield_strength (self_mat_property self) \<noteq> 0"
    and "\<not> is_composite (self_material other)" "mp_yield_strength (self_mat_property other) \<noteq> 0"
    and "self_R_in other = self_R_in self"
    and "(self_MAWP other + 0.2 * 100000) * 1.3 = c * ((self_MAWP self + 0.2 * 100000) * 1.3)"
    and "mp_yield_strength (self_mat_property other) = d * mp_yield_strength (self_mat_property self)"
  shows "\<exists>t t'. inner_tank_thickness self = Inr (t, 0) \<and>
           t = (self_MAWP self + 0.2 * 100000) * 1.3 * self_R_in self
                 / mp_yield_strength (self_mat_property self) \<and>
           inner_tank_thickness other = Inr (t', 0) \<and> t' = c / d * t"
proof -
  have 1: "inner_tank_thickness self = Inr ((self_MAWP self + 0.2 * 100000) * 1.3 * self_R_in self
                 / mp_yield_strength (self_mat_property self), 0)"
    using assms(1,2) by (simp add: inner_tank_thickness_def Let_def)
  have 2: "inner_tank_thickness other = Inr ((self_MAWP other + 0.2 * 100000) * 1.3 * self_R_in other
                 / mp_yield_strength (self_mat_property other), 0)"
    using assms(3,4) by (simp add: inner_tank_thickness_def Let_def)
  have "(self_MAWP other + 0.2 * 100000) * 1.3 * self_R_in other
                 / mp_yield_strength (self_mat_property other)
      = c / d * ((self_MAWP self + 0.2 * 100000) * 1.3 * self_R_in self
                 / mp_yield_strength (self_mat_property self))"
    unfolding assms(5,6,7) by simp
  with 1 2 show ?thesis by simp
qed


theorem isotropic_thickness_witness:
  "\<not> is_composite (self_material demo_tank) \<and>
   mp_yield_strength (self_mat_property demo_tank) \<noteq> 0 \<and>
   (\<exists>t t'. inner_tank_thickness demo_tank = Inr (t, 0) \<and>
      t = 1268800 / 445500000 \<and>
      inner_tank_thickness
        (demo_tank\<lparr>self_MAWP := 2420000,
           self_mat_property := (mat_properties ! 0)\<lparr>mp_yield_strength := 1782000000\<rparr>\<rparr>)
        = Inr (t', 0) \<and>
      t' = 2 / 4 * t)"
proof -
  let ?other = "demo_tank\<lparr>self_MAWP := 2420000,
           self_mat_property := (mat_properties ! 0)\<lparr>mp_yield_strength := 1782000000\<rparr>\<rparr>"
  have h1: "\<not> is_composite (self_material demo_tank)"
    by (simp add: is_composite_def demo_tank_def)
  have h2: "mp_yield_strength (self_mat_property demo_tank) \<noteq> 0"
    by (simp add: demo_tank_def materials_eval)
  have h3: "\<not> is_composite (self_material ?other)"
    by (simp add: is_composite_def demo_tank_def)
  have h4: "mp_yield_strength (self_mat_property ?other) \<noteq> 0" by simp
  have h5: "self_R_in ?other = self_R_in demo_tank" by simp
  have h6: "(self_MAWP ?other + 0.2 * 100000) * 1.3
      = 2 * ((self_MAWP demo_tank + 0.2 * 100000) * 1.3)"
    by (simp add: demo_tank_def MAWP_def)
  have h7: "mp_yield_strength (self_mat_property ?other)
      = 4 * mp_yield_strength (self_mat_property demo_tank)"
    by (simp add: demo_tank_def materials_eval)
  from isotropic_thickness [OF h1 h2 h3 h4 h5 h6 h7] h1 h2
  show ?thesis by (simp add: demo_tank_def MAWP_def materials_eval)
qed


subsection \<open>The vacuum gap\<close>








subsection \<open>Winding angles\<close>
















subsection \<open>The sweep and exceptions\<close>





text \<open>An exception in the body of the innermost loop leaves the loop at once.\<close>

lemma for_material2_propagates:
  assumes "sweep_body brentq fsolve PropsSI P_vent V_in fill_ratio Qmax material mat_property
             material2 mat2_property st = Some (Raised e st')"
  shows "for_material2 brentq fsolve PropsSI P_vent V_in fill_ratio Qmax material mat_property
           ((material2, mat2_property) # rest) st = Some (Raised e st')"
  using assms by simp











end
